theory Spec2Isabelle
  imports Main "HOL-Library.Sublist" "HOL-Library.AList"
begin

section \<open>JavaScript values\<close>

text \<open>
  The service is JavaScript: tokens, request bodies and upstream payloads are JSON values,
  and the code tests them with truthiness, \<^verbatim>\<open>typeof\<close> and \<^verbatim>\<open>===\<close>.
  Numbers are whole numbers (milliseconds, seconds, counts) or \<^verbatim>\<open>NaN\<close>, which
  arithmetic on a missing field produces; fractions, infinities and rounding are outside
  the model. A string is its sequence of characters. An object is the list of its own
  properties in insertion order, one entry per key. \<open>Builtin\<close> stands for an object
  of the runtime itself, by name: \<^verbatim>\<open>Object.prototype\<close> and the functions it holds.
\<close>

datatype jsnum = NaN | Fin int

datatype jsval =
    Undefined
  | Null
  | Bool bool
  | Num jsnum
  | Str string
  | Arr "jsval list"
  | Obj "(string \<times> jsval) list"
  | Builtin string

text \<open>Truthiness: what \<^verbatim>\<open>if (v)\<close>, \<^verbatim>\<open>!v\<close>, \<^verbatim>\<open>!!v\<close>, \<^verbatim>\<open>v && w\<close> and \<^verbatim>\<open>v || w\<close> test.\<close>

fun truthy :: "jsval \<Rightarrow> bool" where
  "truthy Undefined = False"
| "truthy Null = False"
| "truthy (Bool b) = b"
| "truthy (Num NaN) = False"
| "truthy (Num (Fin n)) = (n \<noteq> 0)"
| "truthy (Str s) = (s \<noteq> [])"
| "truthy (Arr xs) = True"
| "truthy (Obj fs) = True"
| "truthy (Builtin n) = True"

text \<open>A value is present when it is neither \<^verbatim>\<open>null\<close> nor \<^verbatim>\<open>undefined\<close>.\<close>

fun present :: "jsval \<Rightarrow> bool" where
  "present Undefined = False"
| "present Null = False"
| "present v = True"

fun js_add :: "jsnum \<Rightarrow> jsnum \<Rightarrow> jsnum" where
  "js_add (Fin a) (Fin b) = Fin (a + b)"
| "js_add a b = NaN"

fun js_mul :: "jsnum \<Rightarrow> jsnum \<Rightarrow> jsnum" where
  "js_mul (Fin a) (Fin b) = Fin (a * b)"
| "js_mul a b = NaN"

text \<open>\<^verbatim>\<open>a > b\<close> on numbers: every comparison with \<^verbatim>\<open>NaN\<close> is false.\<close>

fun js_gt :: "jsnum \<Rightarrow> jsnum \<Rightarrow> bool" where
  "js_gt (Fin a) (Fin b) = (a > b)"
| "js_gt a b = False"

datatype error =
    Transport                \<comment> \<open>axios rejected: no answer, or a status outside 2xx\<close>
  | TypeError                \<comment> \<open>a property read on null or undefined, a call of a non-function\<close>
  | NoRefreshToken           \<comment> \<open>\<^verbatim>\<open>Error('No refresh token available')\<close>\<close>
  | AuthenticationRequired   \<comment> \<open>\<^verbatim>\<open>Error('Authentication required')\<close>\<close>
  | AuthenticationFailed     \<comment> \<open>\<^verbatim>\<open>Error('Authentication failed')\<close>\<close>

text \<open>
  A property read \<^verbatim>\<open>v.k\<close> for the keys the code reads from JSON data
  (\<^verbatim>\<open>content\<close>, \<^verbatim>\<open>totalElements\<close>, \<^verbatim>\<open>activityType\<close>, \<^verbatim>\<open>subject\<close>,
  the two deposit flags): it throws on \<^verbatim>\<open>null\<close> and \<^verbatim>\<open>undefined\<close>, finds an
  object's own property, and is \<^verbatim>\<open>undefined\<close> on every other value.
\<close>

fun get_prop :: "jsval \<Rightarrow> string \<Rightarrow> error + jsval" where
  "get_prop Undefined k = Inl TypeError"
| "get_prop Null k = Inl TypeError"
| "get_prop (Obj fs) k = Inr (case map_of fs k of Some v \<Rightarrow> v | None \<Rightarrow> Undefined)"
| "get_prop v k = Inr Undefined"

section \<open>Deposit store\<close>

text \<open>
  \<^verbatim>\<open>let depositsData = {};\<close> is a plain object used as a dictionary, so it has a
  prototype. A read \<^verbatim>\<open>depositsData[k]\<close> that finds no own property goes on to the
  prototype chain, and \<^verbatim>\<open>__proto__\<close> is an accessor inherited from
  \<^verbatim>\<open>Object.prototype\<close>: reading it gives the object's prototype, assigning an object
  to it replaces the prototype and creates no own property.
\<close>

record depositsData =
  props :: "(string \<times> jsval) list"   \<comment> \<open>own properties\<close>
  proto :: jsval                        \<comment> \<open>the prototype: \<^verbatim>\<open>Object.prototype\<close>, or an assigned object\<close>

definition ObjectPrototype :: jsval where
  "ObjectPrototype = Builtin ''Object.prototype''"

text \<open>The store at start-up: \<^verbatim>\<open>{}\<close>.\<close>

definition depositsData_init :: depositsData where
  "depositsData_init = \<lparr>props = [], proto = ObjectPrototype\<rparr>"

text \<open>The data properties of \<^verbatim>\<open>Object.prototype\<close> (all of them functions).\<close>

definition object_prototype_names :: "string list" where
  "object_prototype_names =
     [''constructor'', ''__defineGetter__'', ''__defineSetter__'', ''hasOwnProperty'',
      ''__lookupGetter__'', ''__lookupSetter__'', ''isPrototypeOf'',
      ''propertyIsEnumerable'', ''toString'', ''valueOf'', ''toLocaleString'']"

definition object_prototype_get :: "string \<Rightarrow> jsval" where
  "object_prototype_get k =
     (if k \<in> set object_prototype_names then Builtin k else Undefined)"

text \<open>A read along the prototype chain, from the prototype \<open>p\<close> on.\<close>

fun proto_get :: "jsval \<Rightarrow> string \<Rightarrow> jsval" where
  "proto_get (Obj fs) k =
     (case map_of fs k of Some v \<Rightarrow> v | None \<Rightarrow> object_prototype_get k)"
| "proto_get p k = object_prototype_get k"

text \<open>\<^verbatim>\<open>depositsData[k]\<close>\<close>

definition deposits_get :: "depositsData \<Rightarrow> string \<Rightarrow> jsval" where
  "deposits_get d k =
     (if k = ''__proto__'' then proto d
      else case map_of (props d) k of
             Some v \<Rightarrow> v
           | None \<Rightarrow> proto_get (proto d) k)"

fun is_object :: "jsval \<Rightarrow> bool" where
  "is_object (Obj fs) = True"
| "is_object (Arr xs) = True"
| "is_object (Builtin n) = True"
| "is_object v = False"

text \<open>\<^verbatim>\<open>depositsData[k] = v\<close>\<close>

definition deposits_set :: "depositsData \<Rightarrow> string \<Rightarrow> jsval \<Rightarrow> depositsData" where
  "deposits_set d k v =
     (if k = ''__proto__''
      then (if is_object v \<or> v = Null then d\<lparr>proto := v\<rparr> else d)
      else d\<lparr>props := AList.update k v (props d)\<rparr>)"

text \<open>An HTTP answer: the status and the value handed to \<^verbatim>\<open>res.json\<close>.\<close>

type_synonym response = "nat \<times> jsval"

definition activity_id_required :: response where
  "activity_id_required = (400, Obj [(''error'', Str ''Activity ID is required'')])"

definition flags_must_be_boolean :: response where
  "flags_must_be_boolean =
     (400, Obj [(''error'',
        Str ''Both depositReturnComplete and depositTransferredToNewStudio must be boolean values'')])"

text \<open>The answer of the \<^verbatim>\<open>catch\<close>; its \<^verbatim>\<open>details\<close>, the engine's message, is left out.\<close>

definition internal_server_error :: response where
  "internal_server_error = (500, Obj [(''error'', Str ''Internal server error'')])"

definition default_deposits :: jsval where
  "default_deposits =
     Obj [(''depositReturnComplete'', Bool False),
          (''depositTransferredToNewStudio'', Bool False)]"

text \<open>
  \<^verbatim>\<open>GET /api/activity-deposits\<close> (the router of the deposits module and the route of
  the server are the same code). The query parameter \<open>activityId\<close> is a string, or
  absent (\<open>None\<close>). The handler does not change the store.
\<close>

definition get_activity_deposits :: "depositsData \<Rightarrow> string option \<Rightarrow> response" where
  "get_activity_deposits d activityId =
     (case activityId of
        None \<Rightarrow> activity_id_required
      | Some a \<Rightarrow>
          if a = [] then activity_id_required
          else let activityDeposits =
                     (if truthy (deposits_get d a) then deposits_get d a else default_deposits)
               in (200, activityDeposits))"

text \<open>\<^verbatim>\<open>typeof v !== 'boolean'\<close>\<close>

fun not_boolean :: "jsval \<Rightarrow> bool" where
  "not_boolean (Bool b) = False"
| "not_boolean v = True"

text \<open>The record a successful update stores; \<open>now\<close> is \<^verbatim>\<open>new Date().toISOString()\<close>.\<close>

definition deposit_record :: "jsval \<Rightarrow> jsval \<Rightarrow> string \<Rightarrow> jsval" where
  "deposit_record depositReturnComplete depositTransferredToNewStudio now =
     Obj [(''depositReturnComplete'', depositReturnComplete),
          (''depositTransferredToNewStudio'', depositTransferredToNewStudio),
          (''updatedAt'', Str now)]"

text \<open>
  \<^verbatim>\<open>PUT /api/activity-deposits\<close>. The body is destructured first, inside the
  \<^verbatim>\<open>try\<close>: a body that is \<^verbatim>\<open>null\<close> or \<^verbatim>\<open>undefined\<close> throws there and the
  \<^verbatim>\<open>catch\<close> answers 500. Then the id is checked, then the two flags.
\<close>

definition put_activity_deposits ::
  "depositsData \<Rightarrow> string option \<Rightarrow> jsval \<Rightarrow> string \<Rightarrow> response \<times> depositsData" where
  "put_activity_deposits d activityId body now =
     (case (get_prop body ''depositReturnComplete'',
            get_prop body ''depositTransferredToNewStudio'') of
        (Inr depositReturnComplete, Inr depositTransferredToNewStudio) \<Rightarrow>
          (case activityId of
             None \<Rightarrow> (activity_id_required, d)
           | Some a \<Rightarrow>
               if a = [] then (activity_id_required, d)
               else if not_boolean depositReturnComplete
                       \<or> not_boolean depositTransferredToNewStudio
               then (flags_must_be_boolean, d)
               else let d' = deposits_set d a
                               (deposit_record depositReturnComplete
                                  depositTransferredToNewStudio now)
                    in ((200, Obj [(''message'', Str ''Deposit status updated successfully''),
                                   (''data'', deposits_get d' a)]), d'))
      | _ \<Rightarrow> (internal_server_error, d))"

text \<open>
  \<open>setStatus a r t\<close> of the specification is the update request for id \<open>a\<close> with the
  body \<^verbatim>\<open>{depositReturnComplete: r, depositTransferredToNewStudio: t}\<close>.
\<close>

definition flags_body :: "bool \<Rightarrow> bool \<Rightarrow> jsval" where
  "flags_body r t =
     Obj [(''depositReturnComplete'', Bool r), (''depositTransferredToNewStudio'', Bool t)]"

section \<open>Token storage and the token provider\<close>

text \<open>
  Two deployments of the server exist. The client-credentials server keeps
  \<^verbatim>\<open>{accessToken, expiresAt}\<close>; the authorization-code server keeps a
  \<^verbatim>\<open>refreshToken\<close> as well. \<open>accessToken\<close> and \<open>refreshToken\<close> hold whatever
  the token endpoint sent; \<open>expiresAt\<close> is \<^verbatim>\<open>null\<close> (\<open>None\<close>) or a number,
  the only values the code ever stores there.
\<close>

record tokenStorage_cc =
  accessToken :: jsval
  expiresAt :: "jsnum option"

record tokenStorage = tokenStorage_cc +
  refreshToken :: jsval


text \<open>
  \<^verbatim>\<open>{ accessToken: null, refreshToken: null, expiresAt: null }\<close>: the state at
  start-up, after a failed refresh and after logout.
\<close>

definition tokenStorage_init :: tokenStorage where
  "tokenStorage_init = \<lparr>accessToken = Null, expiresAt = None, refreshToken = Null\<rparr>"

text \<open>
  The body of a 2xx answer of the token endpoint, as the code destructures it.
  \<open>expires_in\<close> is the number that \<^verbatim>\<open>expires_in * 1000\<close> reads from the field:
  \<open>NaN\<close> when the field is missing or not numeric.
\<close>

record token_response =
  access_token :: jsval
  refresh_token :: jsval
  expires_in :: jsnum

text \<open>
  What \<^verbatim>\<open>await axios.post(tokenUrl, ...)\<close> does: it rejects, or it resolves with
  \<^verbatim>\<open>response.data\<close>, which is \<^verbatim>\<open>null\<close> (destructuring then throws) or carries
  the fields.
\<close>

datatype token_reply = Rejected | Resolved_null | Resolved token_response

text \<open>A call of the token endpoint, by its grant.\<close>

datatype token_request =
    AuthorizationCode string
  | RefreshToken jsval
  | ClientCredentials

text \<open>\<^verbatim>\<open>tokenStorage.expiresAt > t\<close>; \<^verbatim>\<open>null\<close> compares as 0.\<close>

definition expires_after :: "'a tokenStorage_cc_scheme \<Rightarrow> int \<Rightarrow> bool" where
  "expires_after s t =
     js_gt (case expiresAt s of None \<Rightarrow> Fin 0 | Some e \<Rightarrow> e) (Fin t)"

text \<open>\<^verbatim>\<open>Date.now() + (expires_in * 1000)\<close>\<close>

definition expiry :: "int \<Rightarrow> jsnum \<Rightarrow> jsnum" where
  "expiry now secs = js_add (Fin now) (js_mul secs (Fin 1000))"

subsection \<open>Authorization-code server\<close>

text \<open>
  Every function returns its result (\<open>Inl\<close>: the error thrown; the exchange and the
  refresh return \<^verbatim>\<open>response.data\<close>), the token storage afterwards, and the calls it
  made to the token endpoint. \<open>now\<close> is \<^verbatim>\<open>Date.now()\<close> at the first test,
  \<open>reply\<close> is the endpoint's answer, should it be called, and \<open>later\<close> is
  \<^verbatim>\<open>Date.now()\<close> when the answer is stored. A call runs to its end before the next
  one starts; requests interleaved at an \<^verbatim>\<open>await\<close> are outside the model.
\<close>

type_synonym ('r, 's) outcome = "(error + 'r) \<times> 's \<times> token_request list"

fun exchangeCodeForTokens ::
  "tokenStorage \<Rightarrow> string \<Rightarrow> token_reply \<Rightarrow> int \<Rightarrow> (token_response, tokenStorage) outcome" where
  "exchangeCodeForTokens s code Rejected later = (Inl Transport, s, [AuthorizationCode code])"
| "exchangeCodeForTokens s code Resolved_null later = (Inl TypeError, s, [AuthorizationCode code])"
| "exchangeCodeForTokens s code (Resolved r) later =
     (Inr r,
      s\<lparr>accessToken := access_token r,
        refreshToken := refresh_token r,
        expiresAt := Some (expiry later (expires_in r))\<rparr>,
      [AuthorizationCode code])"

fun refreshAccessToken ::
  "tokenStorage \<Rightarrow> token_reply \<Rightarrow> int \<Rightarrow> (token_response, tokenStorage) outcome" where
  "refreshAccessToken s reply later =
     (if \<not> truthy (refreshToken s) then (Inl NoRefreshToken, s, [])
      else case reply of
             Rejected \<Rightarrow> (Inl Transport, s, [RefreshToken (refreshToken s)])
           | Resolved_null \<Rightarrow> (Inl TypeError, s, [RefreshToken (refreshToken s)])
           | Resolved r \<Rightarrow>
               (Inr r,
                s\<lparr>accessToken := access_token r,
                  refreshToken :=
                    (if truthy (refresh_token r) then refresh_token r else refreshToken s),
                  expiresAt := Some (expiry later (expires_in r))\<rparr>,
                [RefreshToken (refreshToken s)]))"

definition getValidAccessToken ::
  "tokenStorage \<Rightarrow> int \<Rightarrow> token_reply \<Rightarrow> int \<Rightarrow> (jsval, tokenStorage) outcome" where
  "getValidAccessToken s now reply later =
     (if truthy (accessToken s) \<and> expires_after s (now + 300000)
      then (Inr (accessToken s), s, [])
      else if truthy (refreshToken s)
      then (case refreshAccessToken s reply later of
              (Inr data, s', calls) \<Rightarrow> (Inr (accessToken s'), s', calls)
            | (Inl e, s', calls) \<Rightarrow> (Inl AuthenticationRequired, tokenStorage_init, calls))
      else (Inl AuthenticationRequired, s, []))"

text \<open>\<^verbatim>\<open>POST /auth/logout\<close>\<close>

definition logout :: "tokenStorage \<Rightarrow> tokenStorage" where
  "logout s = tokenStorage_init"



text \<open>
  The requests that reach the token storage without exchanging an authorization code:
  anything that asks for a valid token, and logout.
\<close>

datatype request = GetValidAccessToken int token_reply int | Logout

fun serve ::
  "tokenStorage \<Rightarrow> request list \<Rightarrow> ((error + jsval) \<times> token_request list) list \<times> tokenStorage" where
  "serve s [] = ([], s)"
| "serve s (GetValidAccessToken now reply later # rs) =
     (case getValidAccessToken s now reply later of
        (out, s', calls) \<Rightarrow>
          (case serve s' rs of (outs, s'') \<Rightarrow> ((out, calls) # outs, s'')))"
| "serve s (Logout # rs) = serve (logout s) rs"

subsection \<open>Client-credentials server\<close>

fun getAccessToken ::
  "tokenStorage_cc \<Rightarrow> token_reply \<Rightarrow> int \<Rightarrow> (jsval, tokenStorage_cc) outcome" where
  "getAccessToken s Rejected later = (Inl Transport, s, [ClientCredentials])"
| "getAccessToken s Resolved_null later = (Inl TypeError, s, [ClientCredentials])"
| "getAccessToken s (Resolved r) later =
     (Inr (access_token r),
      s\<lparr>accessToken := access_token r, expiresAt := Some (expiry later (expires_in r))\<rparr>,
      [ClientCredentials])"

definition getValidAccessToken_cc ::
  "tokenStorage_cc \<Rightarrow> int \<Rightarrow> token_reply \<Rightarrow> int \<Rightarrow> (jsval, tokenStorage_cc) outcome" where
  "getValidAccessToken_cc s now reply later =
     (if truthy (accessToken s) \<and> expires_after s (now + 300000)
      then (Inr (accessToken s), s, [])
      else case getAccessToken s reply later of
             (Inr token, s', calls) \<Rightarrow> (Inr token, s', calls)
           | (Inl e, s', calls) \<Rightarrow> (Inl AuthenticationFailed, s', calls))"


section \<open>Activity list, filtered for cleaning\<close>

definition departure :: string where
  "departure = ''Inventory Check - Departure''"

text \<open>\<^verbatim>\<open>s.includes(n)\<close> on strings: \<open>n\<close> starts at some position of \<open>s\<close>.\<close>

fun str_includes :: "string \<Rightarrow> string \<Rightarrow> bool" where
  "str_includes [] n = (n = [])"
| "str_includes (c # cs) n = (prefix n (c # cs) \<or> str_includes cs n)"

text \<open>
  \<^verbatim>\<open>v.includes(n)\<close> for a truthy \<open>v\<close>: a string searches for the substring, an array
  for an element equal to the string, and nothing else out of JSON has the method.
\<close>

fun js_includes :: "jsval \<Rightarrow> string \<Rightarrow> error + bool" where
  "js_includes (Str s) n = Inr (str_includes s n)"
| "js_includes (Arr xs) n = Inr (Str n \<in> set xs)"
| "js_includes v n = Inl TypeError"

text \<open>
  The callback of the filter:
  \<^verbatim>\<open>activity.activityType === 'CLEANING' &&
  (!activity.subject || !activity.subject.includes('Inventory Check - Departure'))\<close>
\<close>

definition keep_activity :: "jsval \<Rightarrow> error + bool" where
  "keep_activity activity =
     (case get_prop activity ''activityType'' of
        Inl e \<Rightarrow> Inl e
      | Inr ty \<Rightarrow>
          if ty \<noteq> Str ''CLEANING'' then Inr False
          else (case get_prop activity ''subject'' of
                  Inl e \<Rightarrow> Inl e
                | Inr subject \<Rightarrow>
                    if \<not> truthy subject then Inr True
                    else (case js_includes subject departure of
                            Inl e \<Rightarrow> Inl e
                          | Inr b \<Rightarrow> Inr (\<not> b))))"

text \<open>\<^verbatim>\<open>xs.filter(f)\<close>, left to right; the first exception ends it.\<close>

fun filter_js :: "(jsval \<Rightarrow> error + bool) \<Rightarrow> jsval list \<Rightarrow> error + jsval list" where
  "filter_js f [] = Inr []"
| "filter_js f (x # xs) =
     (case f x of
        Inl e \<Rightarrow> Inl e
      | Inr b \<Rightarrow>
          (case filter_js f xs of
             Inl e \<Rightarrow> Inl e
           | Inr ys \<Rightarrow> Inr (if b then x # ys else ys)))"

fun is_array :: "jsval \<Rightarrow> bool" where
  "is_array (Arr xs) = True"
| "is_array v = False"

fun elements :: "jsval \<Rightarrow> jsval list" where
  "elements (Arr xs) = xs"
| "elements v = []"

text \<open>The own properties a spread \<^verbatim>\<open>{...v}\<close> copies; only an object reaches the spread.\<close>

fun own_props :: "jsval \<Rightarrow> (string \<times> jsval) list" where
  "own_props (Obj fs) = fs"
| "own_props v = []"

definition filterCriteria :: string where
  "filterCriteria = ''activityType=CLEANING and excluding \"Inventory Check - Departure\"''"

text \<open>
  What the list route does with \<^verbatim>\<open>response.data\<close> of the upstream API, up to the
  value it hands to \<^verbatim>\<open>res.json\<close>. An exception (\<open>Inl\<close>) leaves the \<^verbatim>\<open>try\<close> and
  is answered with status 500.
\<close>

definition filteredResponse :: "jsval \<Rightarrow> error + jsval" where
  "filteredResponse originalData =
     (if \<not> truthy originalData then Inr originalData
      else case get_prop originalData ''content'' of
        Inl e \<Rightarrow> Inl e
      | Inr content \<Rightarrow>
          if truthy content \<and> is_array content
          then (case filter_js keep_activity (elements content) of
                  Inl e \<Rightarrow> Inl e
                | Inr filteredContent \<Rightarrow>
                    (case get_prop originalData ''totalElements'' of
                       Inl e \<Rightarrow> Inl e
                     | Inr totalElements \<Rightarrow>
                         Inr (Obj
                           (AList.update ''filterCriteria'' (Str filterCriteria)
                           (AList.update ''originalTotalElements'' totalElements
                           (AList.update ''filtered'' (Bool True)
                           (AList.update ''totalElements''
                              (Num (Fin (int (length filteredContent))))
                           (AList.update ''numberOfElements''
                              (Num (Fin (int (length filteredContent))))
                           (AList.update ''content'' (Arr filteredContent)
                              (own_props originalData))))))))))
          else Inr originalData)"

text \<open>
  The rule in the specification's words: the activity type equals \<^verbatim>\<open>"CLEANING"\<close> and
  the subject does not contain the substring \<^verbatim>\<open>"Inventory Check - Departure"\<close>.
\<close>

definition field :: "jsval \<Rightarrow> string \<Rightarrow> jsval" where
  "field v k = (case map_of (own_props v) k of Some x \<Rightarrow> x | None \<Rightarrow> Undefined)"

definition contains_substring :: "string \<Rightarrow> string \<Rightarrow> bool" where
  "contains_substring s n = (\<exists>before after. s = before @ n @ after)"

definition cleaning_not_departure :: "jsval \<Rightarrow> bool" where
  "cleaning_not_departure activity =
     (field activity ''activityType'' = Str ''CLEANING'' \<and>
      \<not> (\<exists>s. field activity ''subject'' = Str s \<and> contains_substring s departure))"

text \<open>
  An activity as the upstream API sends it: an object whose subject is a string,
  \<^verbatim>\<open>null\<close> or missing.
\<close>

fun is_activity :: "jsval \<Rightarrow> bool" where
  "is_activity (Obj fs) =
     (case map_of fs ''subject'' of
        None \<Rightarrow> True
      | Some Null \<Rightarrow> True
      | Some (Str s) \<Rightarrow> True
      | Some v \<Rightarrow> False)"
| "is_activity v = False"

text \<open>The upstream content of the specification's filtering example.\<close>

definition example_content :: "jsval list" where
  "example_content =
     [Obj [(''activityType'', Str ''CLEANING''), (''subject'', Str ''x'')],
      Obj [(''activityType'', Str ''CLEANING''),
           (''subject'', Str ''Inventory Check - Departure'')],
      Obj [(''activityType'', Str ''OTHER''), (''subject'', Str ''x'')]]"

section \<open>Deposit store: properties\<close>

lemma deposits_get_set_same:
  "is_object v \<Longrightarrow> deposits_get (deposits_set d a v) a = v"
  by (simp add: deposits_get_def deposits_set_def update_conv')

lemma deposits_get_set_other:
  "a \<noteq> ''__proto__'' \<Longrightarrow> b \<noteq> a \<Longrightarrow>
   deposits_get (deposits_set d a v) b = deposits_get d b"
  by (auto simp: deposits_get_def deposits_set_def update_conv' split: option.splits)

lemma deposit_record_object:
  "truthy (deposit_record x y now)" "is_object (deposit_record x y now)"
  by (simp_all add: deposit_record_def)

lemma get_prop_flags_body:
  "get_prop (flags_body r t) ''depositReturnComplete'' = Inr (Bool r)"
  "get_prop (flags_body r t) ''depositTransferredToNewStudio'' = Inr (Bool t)"
  by (simp_all add: flags_body_def)

lemma put_flags_body:
  "a \<noteq> [] \<Longrightarrow>
   put_activity_deposits d (Some a) (flags_body r t) now =
     ((200, Obj [(''message'', Str ''Deposit status updated successfully''),
                 (''data'', deposit_record (Bool r) (Bool t) now)]),
      deposits_set d a (deposit_record (Bool r) (Bool t) now))"
  by (simp add: put_activity_deposits_def get_prop_flags_body Let_def
      deposits_get_set_same deposit_record_object)

text \<open>Whatever the request, an update that does not answer 200 leaves the store alone.\<close>

lemma put_store_unchanged_on_failure:
  "fst (fst (put_activity_deposits d activityId body now)) \<noteq> 200 \<Longrightarrow>
   snd (put_activity_deposits d activityId body now) = d"
  by (auto simp: put_activity_deposits_def Let_def split: sum.splits option.splits if_splits)

lemma put_without_body:
  "\<not> present body \<Longrightarrow>
   put_activity_deposits d activityId body now = (internal_server_error, d)"
  by (cases body) (simp_all add: put_activity_deposits_def)

text \<open>
  Claim C5. For every non-empty activity id \<open>a\<close> and all booleans \<open>r\<close>, \<open>t\<close>: after an
  update of \<open>a\<close> whose body carries the flags \<open>r\<close> and \<open>t\<close>, the status read for \<open>a\<close>
  answers 200 with the record \<open>{r, t, updatedAt}\<close>, \<open>updatedAt\<close> being the time of
  the update; the same update repeated at time \<open>now'\<close> gives the same flags and the new
  \<open>updatedAt\<close>. This holds for every id, \<^verbatim>\<open>__proto__\<close> and the names of
  \<^verbatim>\<open>Object.prototype\<close> included, and from every store.
\<close>

theorem setStatus_then_getStatus:
  assumes "a \<noteq> []"
    and "get_prop body ''depositReturnComplete'' = Inr (Bool r)"
    and "get_prop body ''depositTransferredToNewStudio'' = Inr (Bool t)"
  shows
    "(let d1 = snd (put_activity_deposits d (Some a) body now);
          d2 = snd (put_activity_deposits d1 (Some a) body now')
      in get_activity_deposits d1 (Some a) =
           (200, Obj [(''depositReturnComplete'', Bool r),
                      (''depositTransferredToNewStudio'', Bool t),
                      (''updatedAt'', Str now)])
       \<and> get_activity_deposits d2 (Some a) =
           (200, Obj [(''depositReturnComplete'', Bool r),
                      (''depositTransferredToNewStudio'', Bool t),
                      (''updatedAt'', Str now')]))"
proof -
  have stored: "\<And>d0 ts. get_activity_deposits
        (snd (put_activity_deposits d0 (Some a) body ts)) (Some a) =
      (200, deposit_record (Bool r) (Bool t) ts)"
    using assms
    by (simp add: put_activity_deposits_def get_activity_deposits_def Let_def
        deposits_get_set_same deposit_record_object)
  show ?thesis
    by (simp add: Let_def stored) (simp add: deposit_record_def)
qed

theorem setStatus_then_getStatus_witness:
  "''act-7'' \<noteq> [] \<and>
   get_prop (flags_body True False) ''depositReturnComplete'' = Inr (Bool True) \<and>
   get_prop (flags_body True False) ''depositTransferredToNewStudio'' = Inr (Bool False) \<and>
   get_activity_deposits
     (snd (put_activity_deposits depositsData_init (Some ''act-7'') (flags_body True False)
        ''2024-05-01T10:00:00.000Z''))
     (Some ''act-7'') =
     (200, Obj [(''depositReturnComplete'', Bool True),
                (''depositTransferredToNewStudio'', Bool False),
                (''updatedAt'', Str ''2024-05-01T10:00:00.000Z'')])"
  using setStatus_then_getStatus [of "''act-7''" "flags_body True False" True False
      depositsData_init "''2024-05-01T10:00:00.000Z''" "''2024-05-01T10:00:00.000Z''"]
  by (simp add: get_prop_flags_body Let_def)



text \<open>
  What the status read does give before any update: 400 without an id, and the default
  flags for every id that is not a name found on the prototype chain.
\<close>

lemma getStatus_without_id:
  "get_activity_deposits d None = (400, Obj [(''error'', Str ''Activity ID is required'')])"
  "get_activity_deposits d (Some []) = (400, Obj [(''error'', Str ''Activity ID is required'')])"
  by (simp_all add: get_activity_deposits_def activity_id_required_def)

lemma getStatus_default:
  "a \<noteq> [] \<Longrightarrow> a \<noteq> ''__proto__'' \<Longrightarrow> a \<notin> set object_prototype_names \<Longrightarrow>
   get_activity_deposits depositsData_init (Some a) =
     (200, Obj [(''depositReturnComplete'', Bool False),
                (''depositTransferredToNewStudio'', Bool False)])"
  by (simp add: get_activity_deposits_def depositsData_init_def deposits_get_def
      ObjectPrototype_def object_prototype_get_def default_deposits_def)

text \<open>
  Claim C7. Before any update, the status read of a non-empty id should answer the default
  flags. For the id \<^verbatim>\<open>constructor\<close> the read \<^verbatim>\<open>depositsData[activityId]\<close> finds
  the function inherited from \<^verbatim>\<open>Object.prototype\<close>, which is truthy, and the route
  answers 200 with that function instead of the default flags.
\<close>

theorem getStatus_constructor:
  "get_activity_deposits depositsData_init (Some ''constructor'') =
     (200, Builtin ''constructor'')"
  by (simp add: get_activity_deposits_def depositsData_init_def deposits_get_def
      ObjectPrototype_def object_prototype_get_def object_prototype_names_def)

text \<open>
  An update of one id leaves the read of every other id as it was, unless the updated id
  is \<^verbatim>\<open>__proto__\<close>.
\<close>

lemma setStatus_frame:
  assumes "a \<noteq> ''__proto__''" and "b \<noteq> a"
  shows "deposits_get (snd (put_activity_deposits d (Some a) body now)) b = deposits_get d b"
  using assms
  by (auto simp: put_activity_deposits_def Let_def deposits_get_set_other
      split: sum.splits)

text \<open>
  Claim C10. An update of id \<open>a\<close> should leave what is stored under every other id \<open>b\<close>
  unchanged. For \<open>a\<close> = \<^verbatim>\<open>__proto__\<close> the assignment replaces the prototype of the
  store: before it the status read of \<^verbatim>\<open>updatedAt\<close> answers the default flags, after
  it the same read answers the time stamp of the update.
\<close>

theorem setStatus_proto_changes_other_id:
  "get_activity_deposits depositsData_init (Some ''updatedAt'') =
     (200, Obj [(''depositReturnComplete'', Bool False),
                (''depositTransferredToNewStudio'', Bool False)]) \<and>
   get_activity_deposits
     (snd (put_activity_deposits depositsData_init (Some ''__proto__'')
        (flags_body True True) ''2024-05-01T10:00:00.000Z''))
     (Some ''updatedAt'') = (200, Str ''2024-05-01T10:00:00.000Z'')"
  by (simp add: put_flags_body)
     (simp add: get_activity_deposits_def depositsData_init_def deposits_get_def
      ObjectPrototype_def object_prototype_get_def object_prototype_names_def
      deposits_set_def deposit_record_def default_deposits_def)

section \<open>Token provider: properties\<close>

lemma expires_after_Some:
  "expiresAt s = Some (Fin e) \<Longrightarrow> expires_after s t = (t < e)"
  by (simp add: expires_after_def)

lemma expires_after_mono:
  "expires_after s t' \<Longrightarrow> t \<le> t' \<Longrightarrow> expires_after s t"
  by (cases "expiresAt s"; cases "the (expiresAt s)") (auto simp: expires_after_def)

lemma getAccessToken_calls:
  "snd (snd (getAccessToken c reply later)) = [ClientCredentials]"
  by (cases reply) simp_all

lemma refreshAccessToken_calls:
  "truthy (refreshToken s) \<Longrightarrow>
   snd (snd (refreshAccessToken s reply later)) = [RefreshToken (refreshToken s)]"
  by (cases reply) simp_all

lemma refreshAccessToken_failure:
  "truthy (refreshToken s) \<Longrightarrow> fst (refreshAccessToken s reply later) = Inl e \<Longrightarrow>
   refreshAccessToken s reply later = (Inl e, s, [RefreshToken (refreshToken s)])"
  by (cases reply) auto

text \<open>
  Claim C1. In both servers: when the access token is set (a value the code's test
  \<^verbatim>\<open>tokenStorage.accessToken && ...\<close> takes as true, such as any non-empty string) and
  \<open>expiresAt\<close> is more than 300000 ms after the current time, \<open>getValidAccessToken\<close>
  returns the cached access token, calls the token endpoint not at all, and leaves the token
  storage as it was.
\<close>

theorem getValidAccessToken_reuses_token:
  "(truthy (accessToken s) \<and> expiresAt s = Some (Fin e) \<and> now + 300000 < e \<longrightarrow>
      getValidAccessToken s now reply later = (Inr (accessToken s), s, [])) \<and>
   (truthy (accessToken c) \<and> expiresAt c = Some (Fin e) \<and> now + 300000 < e \<longrightarrow>
      getValidAccessToken_cc c now reply later = (Inr (accessToken c), c, []))"
  by (simp add: getValidAccessToken_def getValidAccessToken_cc_def expires_after_Some)

theorem getValidAccessToken_reuses_token_witness:
  "truthy (Str ''t1'') \<and> (1000 :: int) + 300000 < 601000 \<and>
   getValidAccessToken
     \<lparr>accessToken = Str ''t1'', expiresAt = Some (Fin 601000), refreshToken = Str ''r1''\<rparr>
     1000 Rejected 1005 =
     (Inr (Str ''t1''),
      \<lparr>accessToken = Str ''t1'', expiresAt = Some (Fin 601000), refreshToken = Str ''r1''\<rparr>,
      []) \<and>
   getValidAccessToken_cc \<lparr>accessToken = Str ''t1'', expiresAt = Some (Fin 601000)\<rparr>
     1000 Rejected 1005 =
     (Inr (Str ''t1''), \<lparr>accessToken = Str ''t1'', expiresAt = Some (Fin 601000)\<rparr>, [])"
  using getValidAccessToken_reuses_token
    [of "\<lparr>accessToken = Str ''t1'', expiresAt = Some (Fin 601000), refreshToken = Str ''r1''\<rparr>"
      601000 1000 Rejected 1005
      "\<lparr>accessToken = Str ''t1'', expiresAt = Some (Fin 601000)\<rparr>"]
  by simp

text \<open>
  Claim C2, as stated: whenever the access token is set and \<open>expiresAt\<close> is not more than
  five minutes ahead, \<open>getValidAccessToken\<close> makes exactly one call to the token
  endpoint. It fails in the authorization-code server when no refresh token is cached: with
  a token that expires in four minutes and \<^verbatim>\<open>refreshToken: null\<close> no call is made.
\<close>

theorem getValidAccessToken_no_refresh_token_no_call:
  "truthy (accessToken
     \<lparr>accessToken = Str ''t1'', expiresAt = Some (Fin 240000), refreshToken = Null\<rparr>) \<and>
   \<not> expires_after
     \<lparr>accessToken = Str ''t1'', expiresAt = Some (Fin 240000), refreshToken = Null\<rparr>
     (0 + 300000) \<and>
   length (snd (snd (getValidAccessToken
     \<lparr>accessToken = Str ''t1'', expiresAt = Some (Fin 240000), refreshToken = Null\<rparr>
     0 (Resolved \<lparr>access_token = Str ''t2'', refresh_token = Str ''r2'',
                  expires_in = Fin 3600\<rparr>) 5))) = 0"
  by (simp add: getValidAccessToken_def expires_after_def)

text \<open>
  Claim C2, amended. With the access token set and \<open>expiresAt\<close> not more than 300000 ms
  after the current time: the client-credentials server makes exactly one call, the
  client-credentials grant; the authorization-code server makes exactly one call, the refresh
  grant with the cached refresh token, when a refresh token is cached, and when none is
  cached it makes no call, fails with \<^verbatim>\<open>Authentication required\<close> and leaves the token
  storage as it was.
\<close>

theorem getValidAccessToken_calls_once:
  "(truthy (accessToken c) \<and> \<not> expires_after c (now + 300000) \<longrightarrow>
      snd (snd (getValidAccessToken_cc c now reply later)) = [ClientCredentials]) \<and>
   (truthy (accessToken s) \<and> \<not> expires_after s (now + 300000) \<and> truthy (refreshToken s) \<longrightarrow>
      snd (snd (getValidAccessToken s now reply later)) = [RefreshToken (refreshToken s)]) \<and>
   (truthy (accessToken s) \<and> \<not> expires_after s (now + 300000) \<and> \<not> truthy (refreshToken s) \<longrightarrow>
      getValidAccessToken s now reply later = (Inl AuthenticationRequired, s, []))"
  by (cases reply) (simp_all add: getValidAccessToken_def getValidAccessToken_cc_def)

theorem getValidAccessToken_calls_once_witness:
  "truthy (Str ''t1'') \<and>
   \<not> expires_after \<lparr>accessToken = Str ''t1'', expiresAt = Some (Fin 240000)\<rparr> (0 + 300000) \<and>
   snd (snd (getValidAccessToken_cc \<lparr>accessToken = Str ''t1'', expiresAt = Some (Fin 240000)\<rparr>
     0 Rejected 5)) = [ClientCredentials] \<and>
   truthy (Str ''r1'') \<and>
   snd (snd (getValidAccessToken
     \<lparr>accessToken = Str ''t1'', expiresAt = Some (Fin 240000), refreshToken = Str ''r1''\<rparr>
     0 Rejected 5)) = [RefreshToken (Str ''r1'')] \<and>
   \<not> truthy Null \<and>
   getValidAccessToken
     \<lparr>accessToken = Str ''t1'', expiresAt = Some (Fin 240000), refreshToken = Null\<rparr>
     0 Rejected 5 =
     (Inl AuthenticationRequired,
      \<lparr>accessToken = Str ''t1'', expiresAt = Some (Fin 240000), refreshToken = Null\<rparr>, [])"
  using getValidAccessToken_calls_once
    [of "\<lparr>accessToken = Str ''t1'', expiresAt = Some (Fin 240000)\<rparr>" 0 Rejected 5
      "\<lparr>accessToken = Str ''t1'', expiresAt = Some (Fin 240000), refreshToken = Str ''r1''\<rparr>"]
    getValidAccessToken_calls_once
    [of "\<lparr>accessToken = Str ''t1'', expiresAt = Some (Fin 240000)\<rparr>" 0 Rejected 5
      "\<lparr>accessToken = Str ''t1'', expiresAt = Some (Fin 240000), refreshToken = Null\<rparr>"]
  by (simp add: expires_after_def)

text \<open>
  Once the token storage is cleared, every request for a valid token fails with
  \<^verbatim>\<open>Authentication required\<close> without a call to the token endpoint, and the storage
  stays cleared, whatever the clock and however many requests and logouts follow.
\<close>

lemma serve_cleared:
  "serve tokenStorage_init rs =
     (map (\<lambda>r. (Inl AuthenticationRequired, [])) (filter (\<lambda>r. r \<noteq> Logout) rs),
      tokenStorage_init)"
proof (induction rs)
  case Nil
  show ?case by simp
next
  case (Cons r rs)
  show ?case
  proof (cases r)
    case (GetValidAccessToken now reply later)
    have "getValidAccessToken tokenStorage_init now reply later =
          (Inl AuthenticationRequired, tokenStorage_init, [])"
      by (simp add: getValidAccessToken_def tokenStorage_init_def)
    with Cons GetValidAccessToken show ?thesis by simp
  next
    case Logout
    with Cons show ?thesis by (simp add: logout_def)
  qed
qed

text \<open>A new exchange of an authorization code ends the failures.\<close>

lemma exchange_restores_access:
  assumes "truthy (access_token r)" and "expires_in r = Fin n"
    and "now + 300000 < later + n * 1000"
  shows "fst (getValidAccessToken
           (fst (snd (exchangeCodeForTokens s code (Resolved r) later))) now reply later') =
         Inr (access_token r)"
  using assms by (simp add: getValidAccessToken_def expires_after_def expiry_def)

text \<open>
  Claim C3, as stated, says that without a cached refresh token \<open>getValidAccessToken\<close>
  fails. It does not when the cached access token is still good for more than five
  minutes: the first test of the function returns it before any look at the refresh token.
\<close>

theorem getValidAccessToken_no_refresh_token_succeeds:
  "\<not> truthy (refreshToken
     \<lparr>accessToken = Str ''t1'', expiresAt = Some (Fin 600000), refreshToken = Null\<rparr>) \<and>
   getValidAccessToken
     \<lparr>accessToken = Str ''t1'', expiresAt = Some (Fin 600000), refreshToken = Null\<rparr>
     0 Rejected 5 =
     (Inr (Str ''t1''),
      \<lparr>accessToken = Str ''t1'', expiresAt = Some (Fin 600000), refreshToken = Null\<rparr>, [])"
  by (simp add: getValidAccessToken_def expires_after_def)

text \<open>
  Claim C3, amended. In the authorization-code server, when the cached access token is not
  usable (not set, or \<open>expiresAt\<close> not more than 300000 ms ahead):
  \<^item> if a refresh token is cached and the refresh fails, \<open>getValidAccessToken\<close> sets
    \<open>accessToken\<close>, \<open>refreshToken\<close> and \<open>expiresAt\<close> to \<^verbatim>\<open>null\<close> and fails with
    \<^verbatim>\<open>Authentication required\<close>, after that one call;
  \<^item> if no refresh token is cached it fails with \<^verbatim>\<open>Authentication required\<close> at once,
    without a call and without a change to the token storage, and it fails in the same way
    at every later clock reading;
  \<^item> from the cleared storage, every later request for a valid token fails with
    \<^verbatim>\<open>Authentication required\<close> without a call, and the storage stays cleared, as long
    as no authorization code is exchanged.
\<close>

theorem refresh_failure_clears_storage:
  "(\<not> (truthy (accessToken s) \<and> expires_after s (now + 300000)) \<and> truthy (refreshToken s) \<and>
      fst (refreshAccessToken s reply later) = Inl e \<longrightarrow>
      getValidAccessToken s now reply later =
        (Inl AuthenticationRequired,
         \<lparr>accessToken = Null, expiresAt = None, refreshToken = Null\<rparr>,
         [RefreshToken (refreshToken s)])) \<and>
   (\<not> (truthy (accessToken s) \<and> expires_after s (now + 300000)) \<and> \<not> truthy (refreshToken s) \<and>
      now \<le> now' \<longrightarrow>
      getValidAccessToken s now reply later = (Inl AuthenticationRequired, s, []) \<and>
      getValidAccessToken s now' reply' later' = (Inl AuthenticationRequired, s, [])) \<and>
   serve \<lparr>accessToken = Null, expiresAt = None, refreshToken = Null\<rparr> rs =
     (map (\<lambda>r. (Inl AuthenticationRequired, [])) (filter (\<lambda>r. r \<noteq> Logout) rs),
      \<lparr>accessToken = Null, expiresAt = None, refreshToken = Null\<rparr>)"
proof (intro conjI impI)
  assume h: "\<not> (truthy (accessToken s) \<and> expires_after s (now + 300000)) \<and>
             truthy (refreshToken s) \<and> fst (refreshAccessToken s reply later) = Inl e"
  then have "truthy (refreshToken s)" and "fst (refreshAccessToken s reply later) = Inl e"
    by blast+
  then have "refreshAccessToken s reply later = (Inl e, s, [RefreshToken (refreshToken s)])"
    by (rule refreshAccessToken_failure)
  with h show "getValidAccessToken s now reply later =
        (Inl AuthenticationRequired,
         \<lparr>accessToken = Null, expiresAt = None, refreshToken = Null\<rparr>,
         [RefreshToken (refreshToken s)])"
    by (auto simp: getValidAccessToken_def tokenStorage_init_def
        simp del: refreshAccessToken.simps)
next
  assume h: "\<not> (truthy (accessToken s) \<and> expires_after s (now + 300000)) \<and>
             \<not> truthy (refreshToken s) \<and> now \<le> now'"
  then show "getValidAccessToken s now reply later = (Inl AuthenticationRequired, s, [])"
    by (auto simp: getValidAccessToken_def)
  from h have "\<not> (truthy (accessToken s) \<and> expires_after s (now' + 300000))"
    using expires_after_mono [of s "now' + 300000" "now + 300000"] by auto
  with h show "getValidAccessToken s now' reply' later' = (Inl AuthenticationRequired, s, [])"
    by (auto simp: getValidAccessToken_def)
next
  show "serve \<lparr>accessToken = Null, expiresAt = None, refreshToken = Null\<rparr> rs =
     (map (\<lambda>r. (Inl AuthenticationRequired, [])) (filter (\<lambda>r. r \<noteq> Logout) rs),
      \<lparr>accessToken = Null, expiresAt = None, refreshToken = Null\<rparr>)"
    using serve_cleared [of rs] by (simp add: tokenStorage_init_def)
qed

theorem refresh_failure_clears_storage_witness:
  "\<not> (truthy (Str ''t1'') \<and>
      expires_after
        \<lparr>accessToken = Str ''t1'', expiresAt = Some (Fin 240000), refreshToken = Str ''r1''\<rparr>
        (0 + 300000)) \<and>
   truthy (Str ''r1'') \<and>
   fst (refreshAccessToken
     \<lparr>accessToken = Str ''t1'', expiresAt = Some (Fin 240000), refreshToken = Str ''r1''\<rparr>
     Rejected 5) = Inl Transport \<and>
   getValidAccessToken
     \<lparr>accessToken = Str ''t1'', expiresAt = Some (Fin 240000), refreshToken = Str ''r1''\<rparr>
     0 Rejected 5 =
     (Inl AuthenticationRequired,
      \<lparr>accessToken = Null, expiresAt = None, refreshToken = Null\<rparr>,
      [RefreshToken (Str ''r1'')]) \<and>
   \<not> truthy Null \<and> (0 :: int) \<le> 1000 \<and>
   getValidAccessToken
     \<lparr>accessToken = Str ''t1'', expiresAt = Some (Fin 240000), refreshToken = Null\<rparr>
     1000 Rejected 1005 =
     (Inl AuthenticationRequired,
      \<lparr>accessToken = Str ''t1'', expiresAt = Some (Fin 240000), refreshToken = Null\<rparr>, [])"
  using refresh_failure_clears_storage
    [of "\<lparr>accessToken = Str ''t1'', expiresAt = Some (Fin 240000), refreshToken = Str ''r1''\<rparr>"
      0 Rejected 5 Transport 0 Rejected 5 "[]"]
    refresh_failure_clears_storage
    [of "\<lparr>accessToken = Str ''t1'', expiresAt = Some (Fin 240000), refreshToken = Null\<rparr>"
      0 Rejected 5 Transport 1000 Rejected 1005 "[]"]
  by (simp add: expires_after_def)






section \<open>Activity list: properties\<close>

text \<open>The search of \<^verbatim>\<open>includes\<close> finds exactly the substrings.\<close>

lemma str_includes_sublist: "str_includes s n = sublist n s"
  by (induction s) (simp_all add: sublist_Cons_right)

lemma str_includes_contains: "str_includes s n = contains_substring s n"
  by (simp add: str_includes_sublist contains_substring_def sublist_def)

lemma empty_subject_no_departure: "\<not> contains_substring [] departure"
  by (simp add: contains_substring_def departure_def)

text \<open>On an activity the callback throws nothing and decides the specification's rule.\<close>

lemma keep_activity_spec:
  "is_activity a \<Longrightarrow> keep_activity a = Inr (cleaning_not_departure a)"
proof (cases a)
  case (Obj fs)
  assume "is_activity a"
  with Obj show ?thesis
    by (auto simp: keep_activity_def cleaning_not_departure_def field_def
        str_includes_contains empty_subject_no_departure
        split: option.splits jsval.splits)
qed simp_all

lemma filter_js_total:
  "list_all (\<lambda>x. f x = Inr (P x)) xs \<Longrightarrow> filter_js f xs = Inr (filter P xs)"
  by (induction xs) simp_all

lemma filter_js_activities:
  "list_all is_activity xs \<Longrightarrow>
   filter_js keep_activity xs = Inr (filter cleaning_not_departure xs)"
  by (rule filter_js_total) (simp add: list_all_iff keep_activity_spec)

lemma filteredResponse_content:
  assumes "map_of fs ''content'' = Some (Arr xs)" and "list_all is_activity xs"
  shows "filteredResponse (Obj fs) =
     Inr (Obj
       (AList.update ''filterCriteria'' (Str filterCriteria)
       (AList.update ''originalTotalElements''
          (case map_of fs ''totalElements'' of Some v \<Rightarrow> v | None \<Rightarrow> Undefined)
       (AList.update ''filtered'' (Bool True)
       (AList.update ''totalElements''
          (Num (Fin (int (length (filter cleaning_not_departure xs)))))
       (AList.update ''numberOfElements''
          (Num (Fin (int (length (filter cleaning_not_departure xs)))))
       (AList.update ''content'' (Arr (filter cleaning_not_departure xs)) fs)))))))"
  using assms by (simp add: filteredResponse_def filter_js_activities)

text \<open>A payload without a content array is handed on as it is.\<close>

lemma filteredResponse_no_content:
  "map_of fs ''content'' = None \<Longrightarrow> filteredResponse (Obj fs) = Inr (Obj fs)"
  by (simp add: filteredResponse_def)

text \<open>
  Outside the activities the callback can throw: a cleaning activity with a number as its
  subject has no \<^verbatim>\<open>includes\<close>, and the request ends in the \<^verbatim>\<open>catch\<close>.
\<close>

lemma filteredResponse_number_subject:
  "filteredResponse (Obj [(''content'',
      Arr [Obj [(''activityType'', Str ''CLEANING''), (''subject'', Num (Fin 5))]])]) =
   Inl TypeError"
  by (simp add: filteredResponse_def keep_activity_def)

lemma keep_activity_example:
  "filter_js keep_activity example_content =
     Inr [Obj [(''activityType'', Str ''CLEANING''), (''subject'', Str ''x'')]]"
  by (simp add: example_content_def keep_activity_def departure_def)

text \<open>
  Claim C4, as stated, has \<open>originalTotalElements\<close> equal to the number of elements before
  the filter, 3 in the example. The code copies the \<open>totalElements\<close> field of the upstream
  payload instead: for the example's content alone the field is \<^verbatim>\<open>undefined\<close>, and for
  the same content in a payload that says \<^verbatim>\<open>totalElements: 250\<close> it is 250.
\<close>

theorem filteredResponse_originalTotalElements:
  "filteredResponse (Obj [(''content'', Arr example_content)]) =
     Inr (Obj [(''content'',
                 Arr [Obj [(''activityType'', Str ''CLEANING''), (''subject'', Str ''x'')]]),
               (''numberOfElements'', Num (Fin 1)),
               (''totalElements'', Num (Fin 1)),
               (''filtered'', Bool True),
               (''originalTotalElements'', Undefined),
               (''filterCriteria'', Str filterCriteria)]) \<and>
   filteredResponse
     (Obj [(''content'', Arr example_content), (''totalElements'', Num (Fin 250))]) =
     Inr (Obj [(''content'',
                 Arr [Obj [(''activityType'', Str ''CLEANING''), (''subject'', Str ''x'')]]),
               (''totalElements'', Num (Fin 1)),
               (''numberOfElements'', Num (Fin 1)),
               (''filtered'', Bool True),
               (''originalTotalElements'', Num (Fin 250)),
               (''filterCriteria'', Str filterCriteria)])"
  by (simp add: filteredResponse_def keep_activity_example)

text \<open>
  Claim C4, amended. In the cleaning variant of the list route, for every upstream payload
  with a content array of activities (objects whose subject is a string, \<^verbatim>\<open>null\<close> or
  missing), the answer is the payload with: \<open>content\<close> exactly the elements, in order,
  whose \<open>activityType\<close> equals \<^verbatim>\<open>"CLEANING"\<close> and whose subject does not contain the
  substring \<^verbatim>\<open>"Inventory Check - Departure"\<close>; \<open>numberOfElements\<close> and
  \<open>totalElements\<close> the number of those elements; \<open>filtered\<close> true;
  \<open>originalTotalElements\<close> the \<open>totalElements\<close> field of the upstream payload
  (\<^verbatim>\<open>undefined\<close> when it has none); \<open>filterCriteria\<close> the description of the rule; and
  every other field of the payload as it came. In the example the answer has the first
  element only and \<open>totalElements\<close> 1, and \<open>originalTotalElements\<close> is 3 when the upstream
  payload says \<^verbatim>\<open>totalElements: 3\<close>.
\<close>

theorem filteredResponse_cleaning:
  assumes "map_of fs ''content'' = Some (Arr xs)" and "list_all is_activity xs"
  shows "\<exists>fs'. filteredResponse (Obj fs) = Inr (Obj fs') \<and>
     map_of fs' ''content'' = Some (Arr (filter cleaning_not_departure xs)) \<and>
     map_of fs' ''numberOfElements'' =
       Some (Num (Fin (int (length (filter cleaning_not_departure xs))))) \<and>
     map_of fs' ''totalElements'' =
       Some (Num (Fin (int (length (filter cleaning_not_departure xs))))) \<and>
     map_of fs' ''filtered'' = Some (Bool True) \<and>
     map_of fs' ''originalTotalElements'' =
       Some (case map_of fs ''totalElements'' of Some v \<Rightarrow> v | None \<Rightarrow> Undefined) \<and>
     map_of fs' ''filterCriteria'' =
       Some (Str ''activityType=CLEANING and excluding \"Inventory Check - Departure\"'') \<and>
     (\<forall>k. k \<notin> {''content'', ''numberOfElements'', ''totalElements'', ''filtered'',
                ''originalTotalElements'', ''filterCriteria''} \<longrightarrow>
          map_of fs' k = map_of fs k)"
  by (simp add: filteredResponse_content [OF assms] update_conv' filterCriteria_def)

theorem filteredResponse_cleaning_witness:
  "map_of [(''content'', Arr example_content), (''totalElements'', Num (Fin 3))] ''content''
     = Some (Arr example_content) \<and>
   list_all is_activity example_content \<and>
   filter cleaning_not_departure example_content =
     [Obj [(''activityType'', Str ''CLEANING''), (''subject'', Str ''x'')]] \<and>
   (\<exists>fs'. filteredResponse
        (Obj [(''content'', Arr example_content), (''totalElements'', Num (Fin 3))]) =
        Inr (Obj fs') \<and>
      map_of fs' ''content'' =
        Some (Arr [Obj [(''activityType'', Str ''CLEANING''), (''subject'', Str ''x'')]]) \<and>
      map_of fs' ''numberOfElements'' = Some (Num (Fin 1)) \<and>
      map_of fs' ''totalElements'' = Some (Num (Fin 1)) \<and>
      map_of fs' ''filtered'' = Some (Bool True) \<and>
      map_of fs' ''originalTotalElements'' = Some (Num (Fin 3)))"
proof -
  have acts: "list_all is_activity example_content"
    by (simp add: example_content_def)
  have content: "map_of [(''content'', Arr example_content), (''totalElements'', Num (Fin 3))]
      ''content'' = Some (Arr example_content)"
    by simp
  have "Inr (filter cleaning_not_departure example_content) =
        filter_js keep_activity example_content"
    using acts by (simp add: filter_js_activities)
  then have kept: "filter cleaning_not_departure example_content =
      [Obj [(''activityType'', Str ''CLEANING''), (''subject'', Str ''x'')]]"
    by (simp add: keep_activity_example)
  from filteredResponse_cleaning [OF content acts]
  obtain fs' where "filteredResponse
        (Obj [(''content'', Arr example_content), (''totalElements'', Num (Fin 3))]) =
        Inr (Obj fs')"
    and "map_of fs' ''content'' = Some (Arr (filter cleaning_not_departure example_content))"
    and "map_of fs' ''numberOfElements'' =
        Some (Num (Fin (int (length (filter cleaning_not_departure example_content)))))"
    and "map_of fs' ''totalElements'' =
        Some (Num (Fin (int (length (filter cleaning_not_departure example_content)))))"
    and "map_of fs' ''filtered'' = Some (Bool True)"
    and "map_of fs' ''originalTotalElements'' = Some (Num (Fin 3))"
    by auto
  with kept acts content show ?thesis
    by (intro conjI exI [of _ fs']) simp_all
qed

end
